theory Spec2Isabelle
  imports Complex_Main
begin

text \<open>
  A model of the notebook's two pieces of code, the function
  \<open>scaled_dot_product_attention\<close> and the class \<open>MultiHeadedAttention\<close>, together with
  the operations of the tensor library that they call. The attention function is a pure
  function on tensor values. The constructor and the forward method run in a state that
  holds the storage of the tensor objects, the printed lines and the random number
  generator.
\<close>

section \<open>Errors\<close>

text \<open>
  The exceptions that the notebook's code, the Python runtime and the tensor library can
  raise on the paths modelled here. Every raise is a value \<open>Inl e\<close> of a result type.
\<close>

datatype error =
    AssertionError
  | ZeroDivisionError
  | IndexError
  | RuntimeError
  | AttributeError
  | ValueError
  | TypeError
  | NameError

section \<open>Tensors\<close>

text \<open>
  A tensor value is its shape together with its elements in row-major order, as the tensor
  library stores a contiguous tensor. Elements are modelled as real numbers: arithmetic is
  exact, rounding of floating-point numbers is not modelled.
\<close>

record tensor =
  shape :: "nat list"
  data :: "real list"

definition well_formed :: "tensor \<Rightarrow> bool" where
  "well_formed t = (length (data t) = prod_list (shape t))"

text \<open>Row-major offset of a multi-index, and the multi-index of an offset.\<close>

fun ravel :: "nat list \<Rightarrow> nat list \<Rightarrow> nat" where
  "ravel (n # ns) (i # js) = i * prod_list ns + ravel ns js"
| "ravel _ _ = 0"

fun unravel :: "nat list \<Rightarrow> nat \<Rightarrow> nat list" where
  "unravel [] k = []"
| "unravel (n # ns) k = (k div prod_list ns) # unravel ns (k mod prod_list ns)"

definition in_bounds :: "nat list \<Rightarrow> nat list \<Rightarrow> bool" where
  "in_bounds idx s = list_all2 (<) idx s"

definition get :: "tensor \<Rightarrow> nat list \<Rightarrow> real" where
  "get t idx = data t ! ravel (shape t) idx"

definition tabulate :: "nat list \<Rightarrow> (nat list \<Rightarrow> real) \<Rightarrow> tensor" where
  "tabulate s f = \<lparr>shape = s, data = map (\<lambda>k. f (unravel s k)) [0..<prod_list s]\<rparr>"

subsection \<open>Broadcasting\<close>

text \<open>
  Shapes are aligned at their last axis. Two sizes are compatible when they are equal or
  one of them is 1; a missing axis counts as size 1.
\<close>

fun broadcast_rev :: "nat list \<Rightarrow> nat list \<Rightarrow> nat list option" where
  "broadcast_rev [] bs = Some bs"
| "broadcast_rev (a # as) [] = Some (a # as)"
| "broadcast_rev (a # as) (b # bs) =
     (if a = b \<or> b = 1 then map_option ((#) a) (broadcast_rev as bs)
      else if a = 1 then map_option ((#) b) (broadcast_rev as bs)
      else None)"

definition broadcast_shapes :: "nat list \<Rightarrow> nat list \<Rightarrow> nat list option" where
  "broadcast_shapes a b = map_option rev (broadcast_rev (rev a) (rev b))"

text \<open>The index into an operand of shape \<open>s\<close> that a result index \<open>idx\<close> reads.\<close>

definition bcast_idx :: "nat list \<Rightarrow> nat list \<Rightarrow> nat list" where
  "bcast_idx s idx =
     map2 (\<lambda>n i. if n = 1 then 0 else i) s (drop (length idx - length s) idx)"

subsection \<open>The library operations the notebook calls\<close>

text \<open>
  \<open>a @ b\<close> (\<open>torch.matmul\<close>): a 1-D operand is promoted to a matrix and the added axis
  removed afterwards; the leading (batch) axes are broadcast; the inner sizes must agree.
\<close>

definition matmul :: "tensor \<Rightarrow> tensor \<Rightarrow> error + tensor" where
  "matmul a b =
     (if shape a = [] \<or> shape b = [] then Inl RuntimeError
      else
        let sa = (if length (shape a) = 1 then 1 # shape a else shape a);
            sb = (if length (shape b) = 1 then shape b @ [1] else shape b);
            ba = butlast (butlast sa); n = last (butlast sa); m = last sa;
            bb = butlast (butlast sb); m' = last (butlast sb); p = last sb
        in if m \<noteq> m' then Inl RuntimeError
           else case broadcast_shapes ba bb of
               None \<Rightarrow> Inl RuntimeError
             | Some bs \<Rightarrow>
                 let r = tabulate (bs @ [n, p]) (\<lambda>idx.
                       let bi = take (length bs) idx;
                           i = idx ! length bs;
                           j = idx ! Suc (length bs)
                       in \<Sum>k\<leftarrow>[0..<m].
                            get \<lparr>shape = sa, data = data a\<rparr> (bcast_idx ba bi @ [i, k])
                          * get \<lparr>shape = sb, data = data b\<rparr> (bcast_idx bb bi @ [k, j]))
                 in Inr \<lparr>shape = bs @ (if length (shape a) = 1 then [] else [n])
                                    @ (if length (shape b) = 1 then [] else [p]),
                         data = data r\<rparr>)"

text \<open>\<open>torch.transpose(t, d0, d1)\<close>: the two axes are exchanged.\<close>

definition swap :: "'a list \<Rightarrow> nat \<Rightarrow> nat \<Rightarrow> 'a list" where
  "swap xs i j = xs[i := xs ! j, j := xs ! i]"

definition torch_transpose :: "tensor \<Rightarrow> nat \<Rightarrow> nat \<Rightarrow> error + tensor" where
  "torch_transpose t d0 d1 =
     (if d0 < length (shape t) \<and> d1 < length (shape t)
      then Inr (tabulate (swap (shape t) d0 d1) (\<lambda>idx. get t (swap idx d0 d1)))
      else Inl IndexError)"

text \<open>\<open>t * c\<close> for a Python float \<open>c\<close>.\<close>

definition mul_scalar :: "tensor \<Rightarrow> real \<Rightarrow> tensor" where
  "mul_scalar t c = \<lparr>shape = shape t, data = map (\<lambda>v. v * c) (data t)\<rparr>"

text \<open>
  \<open>F.softmax(t, dim=axis)\<close>: every element is replaced by its exponential divided by
  the sum of the exponentials of the elements that differ from it in that axis only.
\<close>

definition softmax :: "tensor \<Rightarrow> nat \<Rightarrow> error + tensor" where
  "softmax t axis =
     (if shape t = [] then (if axis = 0 then Inr \<lparr>shape = [], data = [1]\<rparr> else Inl IndexError)
      else if axis < length (shape t)
      then Inr (tabulate (shape t) (\<lambda>idx.
             exp (get t idx) / (\<Sum>h\<leftarrow>[0..<shape t ! axis]. exp (get t (idx[axis := h])))))
      else Inl IndexError)"

section \<open>Scaled dot-product attention\<close>

text \<open>
  \<open>Q @ torch.transpose(K, 1, 2) * scaling_factor\<close>, with
  \<open>d_keys = Q.shape[2]\<close> and \<open>scaling_factor = 1 / math.sqrt(d_keys)\<close>.
\<close>

definition scaled_scores :: "tensor \<Rightarrow> tensor \<Rightarrow> error + tensor" where
  "scaled_scores Q K =
     (if length (shape Q) < 3 then Inl IndexError
      else
        let d_keys = shape Q ! 2 in
        if d_keys = 0 then Inl ZeroDivisionError
        else
          let scaling_factor = 1 / sqrt (real d_keys) in
          case torch_transpose K 1 2 of
            Inl e \<Rightarrow> Inl e
          | Inr Kt \<Rightarrow>
              (case matmul Q Kt of
                 Inl e \<Rightarrow> Inl e
               | Inr S \<Rightarrow> Inr (mul_scalar S scaling_factor)))"

text \<open>\<open>F.softmax(..., dim=0)\<close> of the scaled scores.\<close>

definition attention_weights :: "tensor \<Rightarrow> tensor \<Rightarrow> error + tensor" where
  "attention_weights Q K =
     (case scaled_scores Q K of
        Inl e \<Rightarrow> Inl e
      | Inr S \<Rightarrow> softmax S 0)"

definition scaled_dot_product_attention :: "tensor \<Rightarrow> tensor \<Rightarrow> tensor \<Rightarrow> error + tensor" where
  "scaled_dot_product_attention Q K V =
     (case attention_weights Q K of
        Inl e \<Rightarrow> Inl e
      | Inr W \<Rightarrow> matmul W V)"

section \<open>Tensor objects and program state\<close>

text \<open>
  A tensor object of the program is a view: a shape and the address of a storage cell.
  The state holds the storage cells, the next unused address, what has been printed, the
  stream of values that the random number generator will still hand out (the
  distributions of the initialisers are not modelled), and the number of tensor elements
  for which the allocator still has memory when \<open>torch.zeros\<close> is called. The tensors that
  the operations of a forward call create are taken to fit.
\<close>

record tref =
  tshape :: "nat list"
  addr :: nat

datatype log_entry = PrintInt string int | PrintShape string "nat list"

record pystate =
  heap :: "nat \<Rightarrow> real list"
  next_addr :: nat
  stdout :: "log_entry list"
  rng :: "nat \<Rightarrow> real"
  memory :: nat

definition deref :: "pystate \<Rightarrow> tref \<Rightarrow> tensor" where
  "deref s r = \<lparr>shape = tshape r, data = heap s (addr r)\<rparr>"

definition alloc :: "tensor \<Rightarrow> pystate \<Rightarrow> tref \<times> pystate" where
  "alloc t s =
     (\<lparr>tshape = shape t, addr = next_addr s\<rparr>,
      s\<lparr>heap := (heap s)(next_addr s := data t), next_addr := Suc (next_addr s)\<rparr>)"

definition print :: "log_entry \<Rightarrow> pystate \<Rightarrow> pystate" where
  "print e s = s\<lparr>stdout := stdout s @ [e]\<rparr>"

text \<open>
  \<open>torch.zeros(dims)\<close>: every size must be a non-negative number that fits a signed 64-bit
  integer, the byte count of the elements (four bytes each) must fit one too, and the
  allocator must have the memory. Each of these failures is a \<open>RuntimeError\<close>.
\<close>

definition zeros :: "int list \<Rightarrow> pystate \<Rightarrow> (error + tref) \<times> pystate" where
  "zeros dims s =
     (let n = prod_list (map nat dims)
      in if list_ex (\<lambda>d. d < 0 \<or> 2 ^ 63 \<le> d) dims \<or> 2 ^ 63 \<le> 4 * n \<or> memory s < n
         then (Inl RuntimeError, s)
         else
           let (r, s') = alloc \<lparr>shape = map nat dims, data = replicate n 0\<rparr> s
           in (Inr r, s'\<lparr>memory := memory s - n\<rparr>))"

text \<open>Overwriting a tensor in place with the next values of the generator.\<close>

definition fill_random :: "tref \<Rightarrow> pystate \<Rightarrow> pystate" where
  "fill_random r s =
     (let n = prod_list (tshape r)
      in s\<lparr>heap := (heap s)(addr r := map (rng s) [0..<n]), rng := (\<lambda>i. rng s (i + n))\<rparr>)"

text \<open>
  \<open>nn.init.xavier_normal_\<close> computes \<open>fan_in\<close> and \<open>fan_out\<close> from the first two sizes
  and the product of the others, refuses a tensor of fewer than two axes, and divides by
  \<open>fan_in + fan_out\<close>.
\<close>

definition xavier_normal_inplace :: "tref \<Rightarrow> pystate \<Rightarrow> (error + unit) \<times> pystate" where
  "xavier_normal_inplace r s =
     (if length (tshape r) < 2 then (Inl ValueError, s)
      else
        let receptive_field_size = prod_list (drop 2 (tshape r));
            fan_in = tshape r ! 1 * receptive_field_size;
            fan_out = tshape r ! 0 * receptive_field_size
        in if fan_in + fan_out = 0 then (Inl ZeroDivisionError, s)
           else (Inr (), fill_random r s))"

text \<open>\<open>nn.init.uniform_\<close> calls a method of its argument, which \<open>None\<close> does not have.\<close>

definition uniform_inplace :: "tref option \<Rightarrow> pystate \<Rightarrow> (error + unit) \<times> pystate" where
  "uniform_inplace t s =
     (case t of
        None \<Rightarrow> (Inl AttributeError, s)
      | Some r \<Rightarrow> (Inr (), fill_random r s))"

text \<open>
  \<open>t.reshape(dims)\<close> of a contiguous tensor is a view of the same storage. One size may be
  \<open>-1\<close> and is then inferred.
\<close>

definition reshape :: "tref \<Rightarrow> int list \<Rightarrow> error + tref" where
  "reshape t dims =
     (let n = prod_list (tshape t);
          known = prod_list (map nat (filter (\<lambda>d. d \<noteq> - 1) dims))
      in if list_ex (\<lambda>d. d < - 1) dims \<or> 1 < length (filter (\<lambda>d. d = - 1) dims)
         then Inl RuntimeError
         else if list_ex (\<lambda>d. d = - 1) dims
         then (if known = 0 \<or> n mod known \<noteq> 0 then Inl RuntimeError
               else Inr \<lparr>tshape = map (\<lambda>d. if d = - 1 then n div known else nat d) dims,
                         addr = addr t\<rparr>)
         else if known = n then Inr \<lparr>tshape = map nat dims, addr = addr t\<rparr>
         else Inl RuntimeError)"

text \<open>
  \<open>out += b\<close>: the storage of \<open>out\<close> is overwritten; \<open>b\<close> is broadcast to the shape of
  \<open>out\<close>, which the broadcast must not enlarge.
\<close>

definition iadd :: "tref \<Rightarrow> tref \<Rightarrow> pystate \<Rightarrow> (error + unit) \<times> pystate" where
  "iadd out b s =
     (if broadcast_shapes (tshape out) (tshape b) = Some (tshape out)
      then (Inr (),
            s\<lparr>heap := (heap s)(addr out :=
                 data (tabulate (tshape out) (\<lambda>idx.
                   get (deref s out) idx + get (deref s b) (bcast_idx (tshape b) idx))))\<rparr>)
      else (Inl RuntimeError, s))"

section \<open>The multi-head attention module\<close>

record module =
  d_model :: int
  d_keys :: int
  d_values :: int
  num_heads :: int
  bias :: bool
  W_Q :: tref
  W_K :: tref
  W_V :: tref
  W_O :: tref
  b_O :: "tref option"
  dropout :: real

text \<open>
  \<open>MultiHeadedAttention.__init__(d_model, num_heads, bias, dropout)\<close>. The statements are
  taken in the source's order: the assertion (whose \<open>%\<close> raises on a zero divisor), the five
  allocations, \<open>nn.Dropout\<close> (which refuses a probability outside [0, 1]), and the five
  initialisers.

  The fields \<open>self.d_keys\<close> and \<open>self.d_values\<close> are set to \<open>d_model // num_heads\<close>, but
  the sizes of the weight tensors are written with the bare names \<open>d_keys\<close> and
  \<open>d_values\<close>. These are neither parameters nor local variables of the method, so they
  are the variables of that name at the top level of the notebook (both 64 once the cell
  that tries the attention function has run). They are the first two arguments here, an
  undefined variable being \<open>None\<close>; reading one raises \<open>NameError\<close>.
\<close>

definition MultiHeadedAttention ::
    "int option \<Rightarrow> int option \<Rightarrow> int \<Rightarrow> int \<Rightarrow> bool \<Rightarrow> real \<Rightarrow> pystate
       \<Rightarrow> (error + module) \<times> pystate" where
  "MultiHeadedAttention global_d_keys global_d_values dm nh bs p s0 =
     (if nh = 0 then (Inl ZeroDivisionError, s0)
      else if dm mod nh \<noteq> 0 then (Inl AssertionError, s0)
      else
        case global_d_keys of
          None \<Rightarrow> (Inl NameError, s0)
        | Some gk \<Rightarrow>
        (case zeros [nh, dm, gk] s0 of
          (Inl e, s1) \<Rightarrow> (Inl e, s1)
        | (Inr wq, s1) \<Rightarrow>
        (case zeros [nh, dm, gk] s1 of
          (Inl e, s2) \<Rightarrow> (Inl e, s2)
        | (Inr wk, s2) \<Rightarrow>
        (case global_d_values of
          None \<Rightarrow> (Inl NameError, s2)
        | Some gv \<Rightarrow>
        (case zeros [nh, dm, gv] s2 of
          (Inl e, s3) \<Rightarrow> (Inl e, s3)
        | (Inr wv, s3) \<Rightarrow>
        (case zeros [nh * gv, dm] s3 of
          (Inl e, s4) \<Rightarrow> (Inl e, s4)
        | (Inr wo, s4) \<Rightarrow>
        if p < 0 \<or> 1 < p then (Inl ValueError, s4)
        else
        (case (if bs then (case zeros [nh * gv] s4 of
                             (Inl e, s5) \<Rightarrow> (Inl e, s5)
                           | (Inr b, s5) \<Rightarrow> (Inr (Some b), s5))
               else (Inr None, s4)) of
          (Inl e, s5) \<Rightarrow> (Inl e, s5)
        | (Inr bo, s5) \<Rightarrow>
        (case xavier_normal_inplace wq s5 of
          (Inl e, s6) \<Rightarrow> (Inl e, s6)
        | (Inr _, s6) \<Rightarrow>
        (case xavier_normal_inplace wk s6 of
          (Inl e, s7) \<Rightarrow> (Inl e, s7)
        | (Inr _, s7) \<Rightarrow>
        (case xavier_normal_inplace wv s7 of
          (Inl e, s8) \<Rightarrow> (Inl e, s8)
        | (Inr _, s8) \<Rightarrow>
        (case uniform_inplace (Some wo) s8 of
          (Inl e, s9) \<Rightarrow> (Inl e, s9)
        | (Inr _, s9) \<Rightarrow>
        (case uniform_inplace bo s9 of
          (Inl e, s10) \<Rightarrow> (Inl e, s10)
        | (Inr _, s10) \<Rightarrow>
            (Inr \<lparr>d_model = dm, d_keys = dm div nh, d_values = dm div nh, num_heads = nh,
                  bias = bs, W_Q = wq, W_K = wk, W_V = wv, W_O = wo, b_O = bo,
                  dropout = p\<rparr>,
             s10)))))))))))))"

text \<open>
  \<open>MultiHeadedAttention.forward(self, x)\<close>. The module object is passed in and handed back
  with the state, so that what a call does to it can be stated. Every tensor that an
  operation creates gets a fresh storage cell; \<open>Z.reshape\<close> is a view of the cell of \<open>Z\<close>;
  \<open>out += self.b_O\<close> writes into the cell of \<open>out\<close>.
\<close>

definition forward :: "module \<Rightarrow> tref \<Rightarrow> pystate \<Rightarrow> (error + tref) \<times> module \<times> pystate" where
  "forward self x s0 =
     (case matmul (deref s0 x) (deref s0 (W_Q self)) of
        Inl e \<Rightarrow> (Inl e, self, s0)
      | Inr Qv \<Rightarrow>
     let (Q, s1) = alloc Qv s0 in
     (case matmul (deref s1 x) (deref s1 (W_K self)) of
        Inl e \<Rightarrow> (Inl e, self, s1)
      | Inr Kv \<Rightarrow>
     let (K, s2) = alloc Kv s1 in
     (case matmul (deref s2 x) (deref s2 (W_V self)) of
        Inl e \<Rightarrow> (Inl e, self, s2)
      | Inr Vv \<Rightarrow>
     let (V, s3) = alloc Vv s2;
         s4 = print (PrintShape ''V shape'' (tshape V))
             (print (PrintShape ''K shape'' (tshape K))
             (print (PrintShape ''Q shape'' (tshape Q))
             (print (PrintInt ''d_values'' (d_values self))
             (print (PrintInt ''d_keys'' (d_keys self))
             (print (PrintInt ''d_model'' (d_model self)) s3)))))
     in
     (case scaled_dot_product_attention (deref s4 Q) (deref s4 K) (deref s4 V) of
        Inl e \<Rightarrow> (Inl e, self, s4)
      | Inr Zv \<Rightarrow>
     let (Z, s5) = alloc Zv s4;
         s6 = print (PrintShape ''Input shape'' (tshape x))
             (print (PrintShape ''Z shape'' (tshape Z)) s5)
     in
     if tshape x = [] then (Inl IndexError, self, s6)
     else
     (case reshape Z [int (tshape x ! 0), d_model self] of
        Inl e \<Rightarrow> (Inl e, self, s6)
      | Inr Z' \<Rightarrow>
     (case matmul (deref s6 Z') (deref s6 (W_O self)) of
        Inl e \<Rightarrow> (Inl e, self, s6)
      | Inr outv \<Rightarrow>
     let (out, s7) = alloc outv s6 in
     (case (if bias self
            then (case b_O self of
                    None \<Rightarrow> (Inl TypeError, s7)
                  | Some b \<Rightarrow> iadd out b s7)
            else (Inr (), s7)) of
        (Inl e, s8) \<Rightarrow> (Inl e, self, s8)
      | (Inr _, s8) \<Rightarrow>
          (Inr out, self, print (PrintShape ''Output shape'' (tshape out)) s8))))))))"

section \<open>Concrete states\<close>

text \<open>
  A state in which nothing has been allocated or printed; its generator hands out zeros,
  and there is memory for \<open>2 ^ 30\<close> elements.
\<close>

definition initial_state :: pystate where
  "initial_state =
     \<lparr>heap = (\<lambda>a. []), next_addr = 0, stdout = [], rng = (\<lambda>i. 0), memory = 2 ^ 30\<rparr>"

text \<open>
  A module of model width 2 with two heads of size 1, its weights and an input of two
  positions, given by their storage: \<open>W_Q\<close> and \<open>W_K\<close> are zero, \<open>W_V\<close> selects feature 0
  of the input for head 0 and feature 1 for head 1, \<open>W_O\<close> is the identity, \<open>b_O\<close> is
  zero, and both rows of the input are (1, 0).
\<close>

definition example_module :: module where
  "example_module =
     \<lparr>d_model = 2, d_keys = 1, d_values = 1, num_heads = 2, bias = True,
      W_Q = \<lparr>tshape = [2, 2, 1], addr = 0\<rparr>, W_K = \<lparr>tshape = [2, 2, 1], addr = 1\<rparr>,
      W_V = \<lparr>tshape = [2, 2, 1], addr = 2\<rparr>, W_O = \<lparr>tshape = [2, 2], addr = 3\<rparr>,
      b_O = Some \<lparr>tshape = [2], addr = 4\<rparr>, dropout = 0\<rparr>"

definition example_input :: tref where
  "example_input = \<lparr>tshape = [2, 2], addr = 5\<rparr>"

definition example_state :: pystate where
  "example_state =
     \<lparr>heap = (\<lambda>a. [])(0 := [0, 0, 0, 0], 1 := [0, 0, 0, 0], 2 := [1, 0, 0, 1],
                        3 := [1, 0, 0, 1], 4 := [0, 0], 5 := [1, 0, 1, 0]),
      next_addr = 6, stdout = [], rng = (\<lambda>i. 0), memory = 2 ^ 30\<rparr>"

text \<open>
  A generator whose first eighteen values are the weights of \<open>example_module\<close>, in the
  order in which the constructor initialises them.
\<close>

definition example_rng :: "nat \<Rightarrow> real" where
  "example_rng i = (if i = 8 \<or> i = 11 \<or> i = 12 \<or> i = 15 then 1 else 0)"

section \<open>Facts about the tensor operations\<close>

lemma shape_tabulate [simp]: "shape (tabulate s f) = s"
  by (simp add: tabulate_def)

lemma well_formed_tabulate [simp]: "well_formed (tabulate s f)"
  by (simp add: tabulate_def well_formed_def)

lemma ravel_less: "list_all2 (<) idx s \<Longrightarrow> ravel s idx < prod_list s"
proof (induction idx s rule: list_all2_induct)
  case Nil
  then show ?case by simp
next
  case (Cons i js n ns)
  have "i * prod_list ns + ravel ns js < i * prod_list ns + prod_list ns"
    using Cons.IH by simp
  also have "\<dots> = Suc i * prod_list ns" by simp
  also have "\<dots> \<le> n * prod_list ns"
    using Cons.hyps(1) by (intro mult_le_mono1) simp
  finally show ?case by simp
qed

lemma unravel_ravel: "list_all2 (<) idx s \<Longrightarrow> unravel s (ravel s idx) = idx"
proof (induction idx s rule: list_all2_induct)
  case Nil
  then show ?case by simp
next
  case (Cons i js n ns)
  have lt: "ravel ns js < prod_list ns"
    using Cons.hyps(2) by (rule ravel_less)
  then show ?case using Cons.IH by simp
qed

lemma get_tabulate: "in_bounds idx s \<Longrightarrow> get (tabulate s f) idx = f idx"
  using ravel_less [of idx s] unravel_ravel [of idx s]
  by (simp add: get_def tabulate_def in_bounds_def)


lemma get_data_tabulate:
  "in_bounds idx s \<Longrightarrow> get \<lparr>shape = s, data = data (tabulate s f)\<rparr> idx = f idx"
  using get_tabulate [of idx s f] by (simp add: get_def)

lemma bcast_idx_same: "list_all2 (<) idx s \<Longrightarrow> bcast_idx s idx = idx"
proof -
  assume a: "list_all2 (<) idx s"
  then have len: "length idx = length s" by (rule list_all2_lengthD)
  from a have "map2 (\<lambda>n i. if n = 1 then 0 else i) s idx = idx"
    by (induction idx s rule: list_all2_induct) auto
  with len show ?thesis by (simp add: bcast_idx_def)
qed

lemma matmul_3_3:
  assumes "shape a = [H, L, M]" and "shape b = [H, M, P]"
  shows "\<exists>r. matmul a b = Inr r \<and> shape r = [H, L, P] \<and> well_formed r \<and>
           (\<forall>h i j. h < H \<longrightarrow> i < L \<longrightarrow> j < P \<longrightarrow>
              get r [h, i, j] = (\<Sum>k\<leftarrow>[0..<M]. get a [h, i, k] * get b [h, k, j]))"
proof -
  let ?f = "\<lambda>idx. \<Sum>k\<leftarrow>[0..<M]. get a (bcast_idx [H] (take 1 idx) @ [idx ! 1, k])
                                  * get b (bcast_idx [H] (take 1 idx) @ [k, idx ! 2])"
  let ?r = "\<lparr>shape = [H, L, P], data = data (tabulate [H, L, P] ?f)\<rparr>"
  have sa: "get \<lparr>shape = shape a, data = data a\<rparr> = get a"
    by (rule ext) (simp add: get_def)
  have sb: "get \<lparr>shape = shape b, data = data b\<rparr> = get b"
    by (rule ext) (simp add: get_def)
  have eq: "matmul a b = Inr ?r"
    using assms sa sb by (simp add: matmul_def broadcast_shapes_def Let_def numeral_2_eq_2)
  have wf: "well_formed ?r"
    by (simp add: well_formed_def tabulate_def)
  have el: "get ?r [h, i, j] = (\<Sum>k\<leftarrow>[0..<M]. get a [h, i, k] * get b [h, k, j])"
    if "h < H" "i < L" "j < P" for h i j
  proof -
    have "in_bounds [h, i, j] [H, L, P]" using that by (simp add: in_bounds_def)
    then have "get ?r [h, i, j] = ?f [h, i, j]" by (rule get_data_tabulate)
    moreover have "bcast_idx [H] [h] = [h]" using that by (simp add: bcast_idx_same)
    ultimately show ?thesis by (simp add: numeral_2_eq_2)
  qed
  show ?thesis using eq wf el by (intro exI [of _ ?r]) simp
qed

lemma matmul_2_3:
  assumes "shape a = [L, M]" and "shape b = [H, M, P]"
  shows "\<exists>r. matmul a b = Inr r \<and> shape r = [H, L, P] \<and> well_formed r \<and>
           (\<forall>h i j. h < H \<longrightarrow> i < L \<longrightarrow> j < P \<longrightarrow>
              get r [h, i, j] = (\<Sum>k\<leftarrow>[0..<M]. get a [i, k] * get b [h, k, j]))"
proof -
  let ?f = "\<lambda>idx. \<Sum>k\<leftarrow>[0..<M]. get a (bcast_idx [] (take 1 idx) @ [idx ! 1, k])
                                  * get b (bcast_idx [H] (take 1 idx) @ [k, idx ! 2])"
  let ?r = "\<lparr>shape = [H, L, P], data = data (tabulate [H, L, P] ?f)\<rparr>"
  have sa: "get \<lparr>shape = shape a, data = data a\<rparr> = get a"
    by (rule ext) (simp add: get_def)
  have sb: "get \<lparr>shape = shape b, data = data b\<rparr> = get b"
    by (rule ext) (simp add: get_def)
  have eq: "matmul a b = Inr ?r"
    using assms sa sb by (simp add: matmul_def broadcast_shapes_def Let_def numeral_2_eq_2)
  have wf: "well_formed ?r"
    by (simp add: well_formed_def tabulate_def)
  have el: "get ?r [h, i, j] = (\<Sum>k\<leftarrow>[0..<M]. get a [i, k] * get b [h, k, j])"
    if "h < H" "i < L" "j < P" for h i j
  proof -
    have "in_bounds [h, i, j] [H, L, P]" using that by (simp add: in_bounds_def)
    then have "get ?r [h, i, j] = ?f [h, i, j]" by (rule get_data_tabulate)
    moreover have "bcast_idx [H] [h] = [h]" using that by (simp add: bcast_idx_same)
    moreover have "bcast_idx [] [h] = []" by (simp add: bcast_idx_def)
    ultimately show ?thesis by (simp add: numeral_2_eq_2)
  qed
  show ?thesis using eq wf el by (intro exI [of _ ?r]) simp
qed

lemma matmul_2_2:
  assumes "shape a = [L, M]" and "shape b = [M, P]"
  shows "\<exists>r. matmul a b = Inr r \<and> shape r = [L, P] \<and> well_formed r \<and>
           (\<forall>i j. i < L \<longrightarrow> j < P \<longrightarrow>
              get r [i, j] = (\<Sum>k\<leftarrow>[0..<M]. get a [i, k] * get b [k, j]))"
proof -
  let ?f = "\<lambda>idx. \<Sum>k\<leftarrow>[0..<M]. get a (bcast_idx [] (take 0 idx) @ [idx ! 0, k])
                                  * get b (bcast_idx [] (take 0 idx) @ [k, idx ! 1])"
  let ?r = "\<lparr>shape = [L, P], data = data (tabulate [L, P] ?f)\<rparr>"
  have sa: "get \<lparr>shape = shape a, data = data a\<rparr> = get a"
    by (rule ext) (simp add: get_def)
  have sb: "get \<lparr>shape = shape b, data = data b\<rparr> = get b"
    by (rule ext) (simp add: get_def)
  have eq: "matmul a b = Inr ?r"
    using assms sa sb by (simp add: matmul_def broadcast_shapes_def Let_def)
  have wf: "well_formed ?r"
    by (simp add: well_formed_def tabulate_def)
  have el: "get ?r [i, j] = (\<Sum>k\<leftarrow>[0..<M]. get a [i, k] * get b [k, j])"
    if "i < L" "j < P" for i j
  proof -
    have "in_bounds [i, j] [L, P]" using that by (simp add: in_bounds_def)
    then have "get ?r [i, j] = ?f [i, j]" by (rule get_data_tabulate)
    then show ?thesis by (simp add: bcast_idx_def)
  qed
  show ?thesis using eq wf el by (intro exI [of _ ?r]) simp
qed


lemma torch_transpose_3:
  assumes "shape t = [H, L, D]"
  shows "\<exists>r. torch_transpose t 1 2 = Inr r \<and> shape r = [H, D, L] \<and>
           (\<forall>h k j. h < H \<longrightarrow> k < D \<longrightarrow> j < L \<longrightarrow> get r [h, k, j] = get t [h, j, k])"
proof -
  let ?r = "tabulate [H, D, L] (\<lambda>idx. get t (swap idx 1 2))"
  have eq: "torch_transpose t 1 2 = Inr ?r"
    using assms by (simp add: torch_transpose_def swap_def numeral_2_eq_2)
  have el: "get ?r [h, k, j] = get t [h, j, k]" if "h < H" "k < D" "j < L" for h k j
  proof -
    have "in_bounds [h, k, j] [H, D, L]" using that by (simp add: in_bounds_def)
    then have "get ?r [h, k, j] = get t (swap [h, k, j] 1 2)" by (rule get_tabulate)
    then show ?thesis by (simp add: swap_def numeral_2_eq_2)
  qed
  show ?thesis using eq el by (intro exI [of _ ?r]) simp
qed

lemma get_mul_scalar:
  "well_formed t \<Longrightarrow> in_bounds idx (shape t) \<Longrightarrow> get (mul_scalar t c) idx = get t idx * c"
  using ravel_less [of idx "shape t"]
  by (simp add: get_def mul_scalar_def well_formed_def in_bounds_def)

lemma well_formed_mul_scalar: "well_formed t \<Longrightarrow> well_formed (mul_scalar t c)"
  by (simp add: well_formed_def mul_scalar_def)

lemma shape_mul_scalar [simp]: "shape (mul_scalar t c) = shape t"
  by (simp add: mul_scalar_def)

lemma scaled_scores_3:
  assumes "shape Q = [H, L, D]" and "shape K = [H, L', D]" and "0 < D"
  shows "\<exists>S. scaled_scores Q K = Inr S \<and> shape S = [H, L, L'] \<and> well_formed S \<and>
           (\<forall>h i j. h < H \<longrightarrow> i < L \<longrightarrow> j < L' \<longrightarrow>
              get S [h, i, j]
                = (\<Sum>k\<leftarrow>[0..<D]. get Q [h, i, k] * get K [h, j, k]) * (1 / sqrt (real D)))"
proof -
  obtain Kt where kt: "torch_transpose K 1 2 = Inr Kt" "shape Kt = [H, D, L']"
    and kt_el: "\<And>h k j. h < H \<Longrightarrow> k < D \<Longrightarrow> j < L' \<Longrightarrow> get Kt [h, k, j] = get K [h, j, k]"
    using torch_transpose_3 [OF assms(2)] by blast
  obtain R where r: "matmul Q Kt = Inr R" "shape R = [H, L, L']" "well_formed R"
    and r_el: "\<And>h i j. h < H \<Longrightarrow> i < L \<Longrightarrow> j < L' \<Longrightarrow>
                 get R [h, i, j] = (\<Sum>k\<leftarrow>[0..<D]. get Q [h, i, k] * get Kt [h, k, j])"
    using matmul_3_3 [OF assms(1) kt(2)] by blast
  let ?S = "mul_scalar R (1 / sqrt (real D))"
  have eq: "scaled_scores Q K = Inr ?S"
    using assms kt(1) r(1) by (simp add: scaled_scores_def numeral_2_eq_2)
  have el: "get ?S [h, i, j]
              = (\<Sum>k\<leftarrow>[0..<D]. get Q [h, i, k] * get K [h, j, k]) * (1 / sqrt (real D))"
    if "h < H" "i < L" "j < L'" for h i j
  proof -
    have "in_bounds [h, i, j] (shape R)" using that r(2) by (simp add: in_bounds_def)
    then have "get ?S [h, i, j] = get R [h, i, j] * (1 / sqrt (real D))"
      using r(3) by (simp add: get_mul_scalar)
    moreover have "(\<Sum>k\<leftarrow>[0..<D]. get Q [h, i, k] * get Kt [h, k, j])
                     = (\<Sum>k\<leftarrow>[0..<D]. get Q [h, i, k] * get K [h, j, k])"
      using that kt_el by (intro arg_cong [where f = sum_list] map_cong) simp_all
    ultimately show ?thesis using that r_el by simp
  qed
  show ?thesis
    using eq r(2) well_formed_mul_scalar [OF r(3)] el by (intro exI [of _ ?S]) simp
qed

lemma softmax_0:
  assumes "shape S = n # ns"
  shows "\<exists>W. softmax S 0 = Inr W \<and> shape W = n # ns \<and> well_formed W \<and>
           (\<forall>h idx. h < n \<longrightarrow> in_bounds idx ns \<longrightarrow>
              get W (h # idx)
                = exp (get S (h # idx)) / (\<Sum>h'\<leftarrow>[0..<n]. exp (get S (h' # idx))))"
proof -
  let ?f = "\<lambda>idx. exp (get S idx) / (\<Sum>h\<leftarrow>[0..<n]. exp (get S (idx[0 := h])))"
  let ?W = "tabulate (n # ns) ?f"
  have eq: "softmax S 0 = Inr ?W" using assms by (simp add: softmax_def)
  have el: "get ?W (h # idx) = exp (get S (h # idx)) / (\<Sum>h'\<leftarrow>[0..<n]. exp (get S (h' # idx)))"
    if "h < n" "in_bounds idx ns" for h idx
  proof -
    have "in_bounds (h # idx) (n # ns)" using that by (simp add: in_bounds_def)
    then have "get ?W (h # idx) = ?f (h # idx)" by (rule get_tabulate)
    then show ?thesis by simp
  qed
  show ?thesis using eq el by (intro exI [of _ ?W]) simp
qed

lemma sum_list_divide_const:
  fixes f :: "'a \<Rightarrow> real"
  shows "(\<Sum>x\<leftarrow>xs. f x / c) = (\<Sum>x\<leftarrow>xs. f x) / c"
  by (induction xs) (simp_all add: add_divide_distrib)

lemma sum_list_exp_pos:
  fixes g :: "'a \<Rightarrow> real"
  shows "xs \<noteq> [] \<Longrightarrow> 0 < (\<Sum>x\<leftarrow>xs. exp (g x))"
proof (induction xs)
  case Nil
  then show ?case by simp
next
  case (Cons x xs)
  have "0 \<le> (\<Sum>y\<leftarrow>xs. exp (g y))" by (rule sum_list_nonneg) auto
  moreover have "0 < exp (g x)" by simp
  ultimately have "0 < exp (g x) + (\<Sum>y\<leftarrow>xs. exp (g y))" by (rule add_pos_nonneg [rotated])
  then show ?case by simp
qed

section \<open>The attention function\<close>

lemma sdpa_shape:
  assumes "shape Q = [H, L, D]" and "shape K = [H, L', D]" and "shape V = [H, L', Dv]"
    and "0 < D"
  shows "\<exists>Z. scaled_dot_product_attention Q K V = Inr Z \<and> shape Z = [H, L, Dv] \<and>
           well_formed Z"
proof -
  obtain S where s: "scaled_scores Q K = Inr S" "shape S = [H, L, L']"
    using scaled_scores_3 [OF assms(1,2,4)] by blast
  obtain W where w: "softmax S 0 = Inr W" "shape W = [H, L, L']"
    using softmax_0 [OF s(2)] by blast
  obtain Z where z: "matmul W V = Inr Z" "shape Z = [H, L, Dv]" "well_formed Z"
    using matmul_3_3 [OF w(2) assms(3)] by blast
  have "scaled_dot_product_attention Q K V = Inr Z"
    using s(1) w(1) z(1) by (simp add: scaled_dot_product_attention_def attention_weights_def)
  then show ?thesis using z by blast
qed

text \<open>
  C3. For query and key tensors of shape (heads, sequence length, head size), the weights
  that the attention function multiplies with the values are the softmax of the scaled
  scores along axis 0: the weight at (h, i, j) is the exponential of the score at (h, i, j)
  divided by the sum, over all heads h', of the exponentials of the scores at (h', i, j).
  The normalisation runs over the heads axis, not over the key axis j.
\<close>

theorem softmax_over_heads_axis:
  assumes "shape Q = [H, L, D]" and "shape K = [H, L, D]" and "0 < D"
  shows "\<exists>S W. scaled_scores Q K = Inr S \<and> attention_weights Q K = Inr W \<and>
           scaled_dot_product_attention Q K V = matmul W V \<and> shape W = [H, L, L] \<and>
           (\<forall>h i j. h < H \<and> i < L \<and> j < L \<longrightarrow>
              get W [h, i, j]
                = exp (get S [h, i, j]) / (\<Sum>h'\<leftarrow>[0..<H]. exp (get S [h', i, j])))"
proof -
  obtain S where s: "scaled_scores Q K = Inr S" "shape S = [H, L, L]"
    using scaled_scores_3 [OF assms] by blast
  obtain W where w: "softmax S 0 = Inr W" "shape W = [H, L, L]"
    and w_el: "\<And>h idx. h < H \<Longrightarrow> in_bounds idx [L, L] \<Longrightarrow>
                 get W (h # idx)
                   = exp (get S (h # idx)) / (\<Sum>h'\<leftarrow>[0..<H]. exp (get S (h' # idx)))"
    using softmax_0 [OF s(2)] by blast
  have aw: "attention_weights Q K = Inr W"
    using s(1) w(1) by (simp add: attention_weights_def)
  have att: "scaled_dot_product_attention Q K V = matmul W V"
    using aw by (simp add: scaled_dot_product_attention_def)
  have el: "get W [h, i, j] = exp (get S [h, i, j]) / (\<Sum>h'\<leftarrow>[0..<H]. exp (get S [h', i, j]))"
    if "h < H \<and> i < L \<and> j < L" for h i j
    using that w_el [of h "[i, j]"] by (simp add: in_bounds_def)
  show ?thesis using s(1) aw att w(2) el by blast
qed

theorem softmax_over_heads_axis_witness:
  "shape \<lparr>shape = [1, 2, 1], data = [0, 0]\<rparr> = [1, 2, 1] \<and> (0::nat) < 1 \<and>
   (\<exists>W. attention_weights \<lparr>shape = [1, 2, 1], data = [0, 0]\<rparr>
                           \<lparr>shape = [1, 2, 1], data = [0, 0]\<rparr> = Inr W \<and>
        get W [0, 0, 0] = 1 \<and> get W [0, 0, 1] = 1)"
proof -
  let ?Q = "\<lparr>shape = [1, 2, 1], data = [0, 0]\<rparr>"
  obtain S W where aw: "attention_weights ?Q ?Q = Inr W"
    and el: "\<forall>h i j. h < 1 \<and> i < 2 \<and> j < 2 \<longrightarrow>
               get W [h, i, j] = exp (get S [h, i, j]) / (\<Sum>h'\<leftarrow>[0..<1]. exp (get S [h', i, j]))"
    using softmax_over_heads_axis [of ?Q 1 2 1 ?Q ?Q] by auto
  have "get W [0, 0, 0] = 1" using el [rule_format, of 0 0 0] by simp
  moreover have "get W [0, 0, 1] = 1" using el [rule_format, of 0 0 1] by simp
  ultimately show ?thesis using aw by auto
qed



text \<open>
  C8, as amended. When the query and key tensors have the same shape (heads, sequence
  length, head size) and the value tensor has the same heads and sequence length: with a
  head size of at least 1 the attention function returns a tensor whose shape is the
  shape of the value tensor, and with head size 0 it raises \<open>ZeroDivisionError\<close>.
\<close>

theorem attention_output_shape:
  assumes "shape Q = [H, L, D]" and "shape K = [H, L, D]" and "shape V = [H, L, Dv]"
  shows "(0 < D \<longrightarrow> (\<exists>Z. scaled_dot_product_attention Q K V = Inr Z \<and> shape Z = shape V)) \<and>
         (D = 0 \<longrightarrow> scaled_dot_product_attention Q K V = Inl ZeroDivisionError)"
proof (intro conjI impI)
  assume "0 < D"
  then show "\<exists>Z. scaled_dot_product_attention Q K V = Inr Z \<and> shape Z = shape V"
    using sdpa_shape [OF assms(1) assms(2) assms(3)] assms(3) by auto
next
  assume "D = 0"
  then show "scaled_dot_product_attention Q K V = Inl ZeroDivisionError"
    using assms(1)
    by (simp add: scaled_dot_product_attention_def attention_weights_def scaled_scores_def)
qed

theorem attention_output_shape_witness:
  "shape \<lparr>shape = [2, 1, 1], data = [3, 4]\<rparr> = [2, 1, 1] \<and>
   shape \<lparr>shape = [2, 1, 2], data = [5, 6, 7, 8]\<rparr> = [2, 1, 2] \<and> (0::nat) < 1 \<and>
   (\<exists>Z. scaled_dot_product_attention \<lparr>shape = [2, 1, 1], data = [3, 4]\<rparr>
           \<lparr>shape = [2, 1, 1], data = [3, 4]\<rparr> \<lparr>shape = [2, 1, 2], data = [5, 6, 7, 8]\<rparr> = Inr Z \<and>
        shape Z = [2, 1, 2]) \<and>
   shape \<lparr>shape = [2, 1, 0], data = []\<rparr> = [2, 1, 0] \<and>
   scaled_dot_product_attention \<lparr>shape = [2, 1, 0], data = []\<rparr>
     \<lparr>shape = [2, 1, 0], data = []\<rparr> \<lparr>shape = [2, 1, 2], data = [5, 6, 7, 8]\<rparr>
     = Inl ZeroDivisionError"
  using attention_output_shape [of "\<lparr>shape = [2, 1, 1], data = [3, 4]\<rparr>" 2 1 1
          "\<lparr>shape = [2, 1, 1], data = [3, 4]\<rparr>" "\<lparr>shape = [2, 1, 2], data = [5, 6, 7, 8]\<rparr>" 2]
    attention_output_shape [of "\<lparr>shape = [2, 1, 0], data = []\<rparr>" 2 1 0
          "\<lparr>shape = [2, 1, 0], data = []\<rparr>" "\<lparr>shape = [2, 1, 2], data = [5, 6, 7, 8]\<rparr>" 2]
  by simp

text \<open>
  With head size 0 there is no output: \<open>1 / math.sqrt(0)\<close> is a division by zero.
\<close>

theorem attention_output_shape_counterexample:
  "scaled_dot_product_attention \<lparr>shape = [1, 1, 0], data = []\<rparr>
     \<lparr>shape = [1, 1, 0], data = []\<rparr> \<lparr>shape = [1, 1, 0], data = []\<rparr> = Inl ZeroDivisionError"
  by (simp add: scaled_dot_product_attention_def attention_weights_def scaled_scores_def)

section \<open>Facts about construction and the forward pass\<close>

lemma zeros_Inr:
  "zeros dims s = (Inr r, s') \<Longrightarrow> tshape r = map nat dims \<and> list_all (\<lambda>d. 0 \<le> d) dims"
  by (auto simp add: zeros_def alloc_def Let_def list_ex_iff list_all_iff split: if_splits)

lemma zeros_ok:
  assumes "list_all (\<lambda>d. 0 \<le> d \<and> d < 2 ^ 63) dims"
    and "prod_list (map nat dims) = n" and "4 * n < 2 ^ 63" and "n \<le> memory s"
  shows "\<exists>s'. zeros dims s = (Inr \<lparr>tshape = map nat dims, addr = next_addr s\<rparr>, s') \<and>
           next_addr s' = Suc (next_addr s) \<and> memory s' = memory s - n"
proof -
  have "\<not> list_ex (\<lambda>d. d < 0 \<or> 2 ^ 63 \<le> d) dims"
    using assms(1) by (auto simp add: list_ex_iff list_all_iff)
  then show ?thesis
    using assms(2-4) by (simp add: zeros_def alloc_def Let_def)
qed

lemma le_mult_pos_right: "0 < (b::nat) \<Longrightarrow> a \<le> a * b"
  by (cases b) simp_all

lemma int_below_size_limit: "0 \<le> (x::int) \<Longrightarrow> nat x < 2 ^ 61 \<Longrightarrow> x < 2 ^ 63"
proof -
  assume a: "0 \<le> x" "nat x < 2 ^ 61"
  have "(2::nat) ^ 61 \<le> 2 ^ 63" by simp
  with a(2) have "nat x < 2 ^ 63" by linarith
  then have "x < int (2 ^ 63)" using a(1) by (simp add: nat_less_iff)
  then show ?thesis by simp
qed

lemma bytes_below_size_limit: "(a::nat) < 2 ^ 61 \<Longrightarrow> 4 * a < 2 ^ 63"
proof -
  assume a: "a < 2 ^ 61"
  have "(2::nat) ^ 63 = 4 * 2 ^ 61" by simp
  with a show ?thesis by linarith
qed

lemma memory_after_four:
  "2 * a + 2 * b \<le> (m::nat) \<Longrightarrow> m - a - a - b - b = m - (2 * a + 2 * b)"
  by linarith

text \<open>
  The four weight tensors can be allocated when the sizes are as the hypotheses say and
  their elements fit in the memory that is left.
\<close>

lemma weights_allocated:
  assumes nh: "0 < nh" and dm: "0 \<le> dm"
    and k: "0 < k" "k < 2 ^ 63" and v: "0 < v"
    and c: "nat nh * nat v < 2 ^ 61"
    and mem: "2 * (nat nh * nat dm * nat k) + 2 * (nat nh * nat dm * nat v) \<le> memory s"
      "memory s < 2 ^ 61"
  shows "\<exists>s1 s2 s3 s4.
           zeros [nh, dm, k] s = (Inr \<lparr>tshape = [nat nh, nat dm, nat k], addr = next_addr s\<rparr>, s1) \<and>
           zeros [nh, dm, k] s1
             = (Inr \<lparr>tshape = [nat nh, nat dm, nat k], addr = next_addr s + 1\<rparr>, s2) \<and>
           zeros [nh, dm, v] s2
             = (Inr \<lparr>tshape = [nat nh, nat dm, nat v], addr = next_addr s + 2\<rparr>, s3) \<and>
           zeros [nh * v, dm] s3
             = (Inr \<lparr>tshape = [nat nh * nat v, nat dm], addr = next_addr s + 3\<rparr>, s4) \<and>
           next_addr s4 = next_addr s + 4 \<and>
           memory s4 = memory s - (2 * (nat nh * nat dm * nat k) + 2 * (nat nh * nat dm * nat v))"
proof -
  let ?H = "nat nh" and ?D = "nat dm" and ?K = "nat k" and ?V = "nat v"
  let ?a = "?H * ?D * ?K" and ?b = "?H * ?D * ?V" and ?c = "?H * ?V"
  have pos: "0 < ?H" "0 < ?K" "0 < ?V" using nh k(1) v by simp_all
  have Hc: "?H \<le> ?c" using pos(3) by (rule le_mult_pos_right)
  have "?D \<le> ?D * ?H" using pos(1) by (rule le_mult_pos_right)
  also have "\<dots> \<le> ?D * ?H * ?K" using pos(2) by (rule le_mult_pos_right)
  finally have Da: "?D \<le> ?a" by (simp add: mult.commute)
  have small: "?a < 2 ^ 61" "?b < 2 ^ 61" using mem by linarith+
  have bH: "nh < 2 ^ 63" using Hc c nh by (intro int_below_size_limit) linarith+
  have bD: "dm < 2 ^ 63" using Da small(1) dm by (intro int_below_size_limit) linarith+
  have hv: "nat (nh * v) = ?c" using nh v by (simp add: nat_mult_distrib)
  have bHV: "0 \<le> nh * v" "nh * v < 2 ^ 63"
  proof -
    show "0 \<le> nh * v" using nh v by simp
    then show "nh * v < 2 ^ 63" using c hv by (intro int_below_size_limit) simp_all
  qed
  have bV: "v < 2 ^ 63"
  proof -
    have "?V \<le> ?V * ?H" using pos(1) by (rule le_mult_pos_right)
    also have "\<dots> = ?c" by (rule mult.commute)
    finally have "?V < 2 ^ 61" using c by (rule le_less_trans)
    then show ?thesis using v by (intro int_below_size_limit) simp_all
  qed
  have pa: "prod_list (map nat [nh, dm, k]) = ?a" by simp
  have pb: "prod_list (map nat [nh, dm, v]) = ?b" by simp
  have po: "prod_list (map nat [nh * v, dm]) = ?b" by (simp add: hv mult.commute mult.left_commute)
  have la: "list_all (\<lambda>d. 0 \<le> d \<and> d < 2 ^ 63) [nh, dm, k]"
    using nh dm k bH bD by simp
  have lb: "list_all (\<lambda>d. 0 \<le> d \<and> d < 2 ^ 63) [nh, dm, v]"
    using nh dm v bH bD bV by simp
  have lo: "list_all (\<lambda>d. 0 \<le> d \<and> d < 2 ^ 63) [nh * v, dm]"
    using dm bD bHV by simp
  have fa: "4 * ?a < 2 ^ 63" and fb: "4 * ?b < 2 ^ 63"
    using small by (simp_all only: bytes_below_size_limit)
  have e1: "map nat [nh, dm, k] = [?H, ?D, ?K]" and e3: "map nat [nh, dm, v] = [?H, ?D, ?V]"
    and e4: "map nat [nh * v, dm] = [?c, ?D]"
    by (simp_all add: hv)
  have r1: "?a \<le> memory s" and r2: "?a \<le> memory s - ?a"
    and r3: "?b \<le> memory s - ?a - ?a" and r4: "?b \<le> memory s - ?a - ?a - ?b"
    using mem(1) by linarith+
  obtain s1 where z1: "zeros [nh, dm, k] s = (Inr \<lparr>tshape = [?H, ?D, ?K], addr = next_addr s\<rparr>, s1)"
    and n1: "next_addr s1 = Suc (next_addr s)" and m1: "memory s1 = memory s - ?a"
    using zeros_ok [OF la pa fa r1] unfolding e1 by blast
  have r2': "?a \<le> memory s1" using r2 by (simp only: m1)
  obtain s2 where z2: "zeros [nh, dm, k] s1 = (Inr \<lparr>tshape = [?H, ?D, ?K], addr = next_addr s1\<rparr>, s2)"
    and n2: "next_addr s2 = Suc (next_addr s1)" and m2: "memory s2 = memory s1 - ?a"
    using zeros_ok [OF la pa fa r2'] unfolding e1 by blast
  have r3': "?b \<le> memory s2" using r3 by (simp only: m1 m2)
  obtain s3 where z3: "zeros [nh, dm, v] s2 = (Inr \<lparr>tshape = [?H, ?D, ?V], addr = next_addr s2\<rparr>, s3)"
    and n3: "next_addr s3 = Suc (next_addr s2)" and m3: "memory s3 = memory s2 - ?b"
    using zeros_ok [OF lb pb fb r3'] unfolding e3 by blast
  have r4': "?b \<le> memory s3" using r4 by (simp only: m1 m2 m3)
  obtain s4 where z4: "zeros [nh * v, dm] s3 = (Inr \<lparr>tshape = [?c, ?D], addr = next_addr s3\<rparr>, s4)"
    and n4: "next_addr s4 = Suc (next_addr s3)" and m4: "memory s4 = memory s3 - ?b"
    using zeros_ok [OF lo po fb r4'] unfolding e4 by blast
  have m: "memory s4 = memory s - (2 * ?a + 2 * ?b)"
    using memory_after_four [OF mem(1)] by (simp only: m1 m2 m3 m4)
  have a2: "next_addr s1 = next_addr s + 1" "next_addr s2 = next_addr s + 2"
    "next_addr s3 = next_addr s + 3" "next_addr s4 = next_addr s + 4"
    using n1 n2 n3 n4 by simp_all
  show ?thesis
    using z1 z2 z3 z4 m a2(4) unfolding a2(1-3) by blast
qed

lemma next_addr_fill_random [simp]: "next_addr (fill_random r s) = next_addr s"
  by (simp add: fill_random_def Let_def)

lemma heads_times_values:
  assumes "0 < nh" and "0 < v" and "nat nh * nat v < 2 ^ 61"
  shows "nat (nh * v) = nat nh * nat v" and "0 \<le> nh * v" and "nh * v < 2 ^ 63"
proof -
  show hv: "nat (nh * v) = nat nh * nat v" using assms(1,2) by (simp add: nat_mult_distrib)
  show nn: "0 \<le> nh * v" using assms(1,2) by simp
  show "nh * v < 2 ^ 63" using nn assms(3) hv by (intro int_below_size_limit) simp_all
qed

lemma construct_succeeds:
  assumes nh: "0 < nh" and dm: "0 \<le> dm" and dv: "dm mod nh = 0"
    and k: "0 < k" "k < 2 ^ 63" and v: "0 < v"
    and p: "0 \<le> p" "p \<le> 1"
    and mem: "2 * (nat nh * nat dm * nat k) + 2 * (nat nh * nat dm * nat v) + nat nh * nat v
                \<le> memory s"
      "memory s < 2 ^ 61"
  shows "\<exists>m s'. MultiHeadedAttention (Some k) (Some v) dm nh True p s = (Inr m, s') \<and>
           d_model m = dm \<and> bias m \<and>
           W_Q m = \<lparr>tshape = [nat nh, nat dm, nat k], addr = next_addr s\<rparr> \<and>
           W_K m = \<lparr>tshape = [nat nh, nat dm, nat k], addr = next_addr s + 1\<rparr> \<and>
           W_V m = \<lparr>tshape = [nat nh, nat dm, nat v], addr = next_addr s + 2\<rparr> \<and>
           W_O m = \<lparr>tshape = [nat nh * nat v, nat dm], addr = next_addr s + 3\<rparr> \<and>
           b_O m = Some \<lparr>tshape = [nat nh * nat v], addr = next_addr s + 4\<rparr> \<and>
           next_addr s' = next_addr s + 5"
proof -
  let ?H = "nat nh" and ?D = "nat dm" and ?K = "nat k" and ?V = "nat v"
  let ?a = "?H * ?D * ?K" and ?b = "?H * ?D * ?V" and ?c = "?H * ?V"
  have c: "?c < 2 ^ 61" using mem by linarith
  have m4: "2 * ?a + 2 * ?b \<le> memory s" using mem(1) by linarith
  obtain s1 s2 s3 s4 where
    z1: "zeros [nh, dm, k] s = (Inr \<lparr>tshape = [?H, ?D, ?K], addr = next_addr s\<rparr>, s1)" and
    z2: "zeros [nh, dm, k] s1 = (Inr \<lparr>tshape = [?H, ?D, ?K], addr = next_addr s + 1\<rparr>, s2)" and
    z3: "zeros [nh, dm, v] s2 = (Inr \<lparr>tshape = [?H, ?D, ?V], addr = next_addr s + 2\<rparr>, s3)" and
    z4: "zeros [nh * v, dm] s3 = (Inr \<lparr>tshape = [?c, ?D], addr = next_addr s + 3\<rparr>, s4)" and
    n4: "next_addr s4 = next_addr s + 4" and
    ms: "memory s4 = memory s - (2 * ?a + 2 * ?b)"
    using weights_allocated [OF nh dm k v c m4 mem(2)] by blast
  have hv: "nat (nh * v) = ?c" and bHV: "0 \<le> nh * v" "nh * v < 2 ^ 63"
    using heads_times_values [OF nh v c] by simp_all
  have lc: "list_all (\<lambda>d. 0 \<le> d \<and> d < 2 ^ 63) [nh * v]" using bHV by simp
  have pc: "prod_list (map nat [nh * v]) = ?c" by (simp add: hv)
  have fc: "4 * ?c < 2 ^ 63" using c by (rule bytes_below_size_limit)
  have rc: "?c \<le> memory s4" using mem(1) by (simp only: ms) linarith
  obtain s5 where z5: "zeros [nh * v] s4 = (Inr \<lparr>tshape = [?c], addr = next_addr s + 4\<rparr>, s5)"
    and n5: "next_addr s5 = next_addr s + 5"
    using zeros_ok [OF lc pc fc rc] by (auto simp add: hv n4)
  have pos: "0 < ?H" "0 < ?K" "0 < ?V" using nh k(1) v by simp_all
  have fq: "?D * ?K + ?H * ?K \<noteq> 0" and fv: "?D * ?V + ?H * ?V \<noteq> 0"
    using pos by simp_all
  show ?thesis
    using nh dv p fq fv n5
    by (simp add: MultiHeadedAttention_def z1 z2 z3 z4 z5 xavier_normal_inplace_def
          uniform_inplace_def)
qed

lemma construct_without_bias:
  assumes nh: "0 < nh" and dm: "0 < dm" and dv: "dm mod nh = 0"
    and k: "0 < k" "k < 2 ^ 63" and v: "0 < v"
    and p: "0 \<le> p" "p \<le> 1"
    and mem: "2 * (nat nh * nat dm * nat k) + 2 * (nat nh * nat dm * nat v) \<le> memory s"
      "memory s < 2 ^ 61"
  shows "fst (MultiHeadedAttention (Some k) (Some v) dm nh False p s) = Inl AttributeError"
proof -
  let ?H = "nat nh" and ?D = "nat dm" and ?K = "nat k" and ?V = "nat v"
  let ?a = "?H * ?D * ?K" and ?b = "?H * ?D * ?V" and ?c = "?H * ?V"
  have "?H \<le> ?H * ?D" using dm by (intro le_mult_pos_right) simp
  then have "?c \<le> ?b" by (rule mult_le_mono1)
  then have c: "?c < 2 ^ 61" using mem by linarith
  have dm0: "0 \<le> dm" using dm by simp
  obtain s1 s2 s3 s4 where
    z1: "zeros [nh, dm, k] s = (Inr \<lparr>tshape = [?H, ?D, ?K], addr = next_addr s\<rparr>, s1)" and
    z2: "zeros [nh, dm, k] s1 = (Inr \<lparr>tshape = [?H, ?D, ?K], addr = next_addr s + 1\<rparr>, s2)" and
    z3: "zeros [nh, dm, v] s2 = (Inr \<lparr>tshape = [?H, ?D, ?V], addr = next_addr s + 2\<rparr>, s3)" and
    z4: "zeros [nh * v, dm] s3 = (Inr \<lparr>tshape = [?c, ?D], addr = next_addr s + 3\<rparr>, s4)"
    using weights_allocated [OF nh dm0 k v c mem] by blast
  have pos: "0 < ?H" "0 < ?K" "0 < ?V" using nh k(1) v by simp_all
  have fq: "?D * ?K + ?H * ?K \<noteq> 0" and fv: "?D * ?V + ?H * ?V \<noteq> 0"
    using pos by simp_all
  show ?thesis
    using nh dv p fq fv
    by (simp add: MultiHeadedAttention_def z1 z2 z3 z4 xavier_normal_inplace_def
          uniform_inplace_def)
qed

lemma shape_deref [simp]: "shape (deref s r) = tshape r"
  by (simp add: deref_def)

lemma swap_3: "swap [a, b, c] (Suc 0) 2 = [a, c, b]"
  by (simp add: swap_def numeral_2_eq_2)

text \<open>
  A forward call up to the reshape: the projections and the attention function succeed on
  weights of shapes (H, D, K), (H, D, K) and (H, D, V) and an input of shape (L, D), and
  the attention output has shape (H, L, V).
\<close>

lemma forward_reshape_fails:
  assumes wq: "tshape (W_Q m) = [H, D, K]" and wk: "tshape (W_K m) = [H, D, K]"
    and wv: "tshape (W_V m) = [H, D, V]" and dm: "d_model m = int D"
    and k: "0 < K" and x: "tshape x = [L, D]" and ne: "H * (L * V) \<noteq> L * D"
  shows "fst (forward m x s) = Inl RuntimeError"
proof -
  obtain Qv where q: "matmul (deref s x) (deref s (W_Q m)) = Inr Qv" "shape Qv = [H, L, K]"
    using matmul_2_3 [of "deref s x" L D "deref s (W_Q m)" H K] x wq by auto
  obtain Q s1 where a1: "alloc Qv s = (Q, s1)" "tshape Q = [H, L, K]"
    using q(2) by (simp add: alloc_def)
  obtain Kv where kk: "matmul (deref s1 x) (deref s1 (W_K m)) = Inr Kv" "shape Kv = [H, L, K]"
    using matmul_2_3 [of "deref s1 x" L D "deref s1 (W_K m)" H K] x wk by auto
  obtain K' s2 where a2: "alloc Kv s1 = (K', s2)" "tshape K' = [H, L, K]"
    using kk(2) by (simp add: alloc_def)
  obtain Vv where v: "matmul (deref s2 x) (deref s2 (W_V m)) = Inr Vv" "shape Vv = [H, L, V]"
    using matmul_2_3 [of "deref s2 x" L D "deref s2 (W_V m)" H V] x wv by auto
  obtain V' s3 where a3: "alloc Vv s2 = (V', s3)" "tshape V' = [H, L, V]"
    using v(2) by (simp add: alloc_def)
  define s4 where "s4 = print (PrintShape ''V shape'' (tshape V'))
             (print (PrintShape ''K shape'' (tshape K'))
             (print (PrintShape ''Q shape'' (tshape Q))
             (print (PrintInt ''d_values'' (d_values m))
             (print (PrintInt ''d_keys'' (d_keys m))
             (print (PrintInt ''d_model'' (d_model m)) s3)))))"
  obtain Zv where z: "scaled_dot_product_attention (deref s4 Q) (deref s4 K') (deref s4 V') = Inr Zv"
      "shape Zv = [H, L, V]"
    using sdpa_shape [of "deref s4 Q" H L K "deref s4 K'" L "deref s4 V'" V] a1(2) a2(2) a3(2) k
    by auto
  obtain Z s5 where a5: "alloc Zv s4 = (Z, s5)" "tshape Z = [H, L, V]"
    using z(2) by (simp add: alloc_def)
  define s6 where "s6 = print (PrintShape ''Input shape'' (tshape x))
             (print (PrintShape ''Z shape'' (tshape Z)) s5)"
  have r: "reshape Z [int (tshape x ! 0), d_model m] = Inl RuntimeError"
    using a5(2) x dm ne by (simp add: reshape_def Let_def)
  have nx: "tshape x \<noteq> []" using x by simp
  show ?thesis
    by (simp add: forward_def Let_def q(1) a1(1) kk(1) a2(1) v(1) a3(1) s4_def [symmetric]
          z(1) a5(1) s6_def [symmetric] nx r)
qed

lemma reshape_2:
  assumes "prod_list (tshape t) = a * b"
  shows "reshape t [int a, int b] = Inr \<lparr>tshape = [a, b], addr = addr t\<rparr>"
  using assms by (simp add: reshape_def Let_def)

lemma iadd_ok:
  "tshape b = [D] \<Longrightarrow> tshape out = [L, D] \<Longrightarrow> \<exists>s'. iadd out b s = (Inr (), s')"
  by (simp add: iadd_def broadcast_shapes_def)

text \<open>
  When the model width is the number of heads times the size of the value vectors that
  the weights were built with, a forward call returns a tensor of the shape of its input.
\<close>

lemma forward_shape:
  assumes wq: "tshape (W_Q m) = [H, H * V, K]" and wk: "tshape (W_K m) = [H, H * V, K]"
    and wv: "tshape (W_V m) = [H, H * V, V]" and wo: "tshape (W_O m) = [H * V, H * V]"
    and bo: "b_O m = Some b" "tshape b = [H * V]" and dm: "d_model m = int (H * V)"
    and k: "0 < K" and x: "tshape x = [L, H * V]"
  shows "\<exists>out s'. forward m x s = (Inr out, m, s') \<and> tshape out = [L, H * V]"
proof -
  obtain Qv where q: "matmul (deref s x) (deref s (W_Q m)) = Inr Qv" "shape Qv = [H, L, K]"
    using matmul_2_3 [of "deref s x" L "H * V" "deref s (W_Q m)" H K] x wq by auto
  obtain Q s1 where a1: "alloc Qv s = (Q, s1)" "tshape Q = [H, L, K]"
    using q(2) by (simp add: alloc_def)
  obtain Kv where kk: "matmul (deref s1 x) (deref s1 (W_K m)) = Inr Kv" "shape Kv = [H, L, K]"
    using matmul_2_3 [of "deref s1 x" L "H * V" "deref s1 (W_K m)" H K] x wk by auto
  obtain K' s2 where a2: "alloc Kv s1 = (K', s2)" "tshape K' = [H, L, K]"
    using kk(2) by (simp add: alloc_def)
  obtain Vv where v: "matmul (deref s2 x) (deref s2 (W_V m)) = Inr Vv" "shape Vv = [H, L, V]"
    using matmul_2_3 [of "deref s2 x" L "H * V" "deref s2 (W_V m)" H V] x wv by auto
  obtain V' s3 where a3: "alloc Vv s2 = (V', s3)" "tshape V' = [H, L, V]"
    using v(2) by (simp add: alloc_def)
  define s4 where "s4 = print (PrintShape ''V shape'' (tshape V'))
             (print (PrintShape ''K shape'' (tshape K'))
             (print (PrintShape ''Q shape'' (tshape Q))
             (print (PrintInt ''d_values'' (d_values m))
             (print (PrintInt ''d_keys'' (d_keys m))
             (print (PrintInt ''d_model'' (d_model m)) s3)))))"
  obtain Zv where z: "scaled_dot_product_attention (deref s4 Q) (deref s4 K') (deref s4 V') = Inr Zv"
      "shape Zv = [H, L, V]"
    using sdpa_shape [of "deref s4 Q" H L K "deref s4 K'" L "deref s4 V'" V] a1(2) a2(2) a3(2) k
    by auto
  obtain Z s5 where a5: "alloc Zv s4 = (Z, s5)" "tshape Z = [H, L, V]"
    using z(2) by (simp add: alloc_def)
  define s6 where "s6 = print (PrintShape ''Input shape'' (tshape x))
             (print (PrintShape ''Z shape'' (tshape Z)) s5)"
  define Z' where "Z' = \<lparr>tshape = [L, H * V], addr = addr Z\<rparr>"
  have r: "reshape Z [int (tshape x ! 0), d_model m] = Inr Z'"
    using reshape_2 [of Z L "H * V"] a5(2) x dm by (simp add: Z'_def)
  obtain outv where o: "matmul (deref s6 Z') (deref s6 (W_O m)) = Inr outv"
      "shape outv = [L, H * V]"
    using matmul_2_2 [of "deref s6 Z'" L "H * V" "deref s6 (W_O m)" "H * V"] wo
    by (auto simp add: Z'_def)
  obtain out s7 where a7: "alloc outv s6 = (out, s7)" "tshape out = [L, H * V]"
    using o(2) by (simp add: alloc_def)
  obtain s8 where i: "iadd out b s7 = (Inr (), s8)"
    using iadd_ok [OF bo(2) a7(2)] by blast
  have nx: "tshape x \<noteq> []" using x by simp
  have "forward m x s
          = (Inr out, m, print (PrintShape ''Output shape'' (tshape out)) (if bias m then s8 else s7))"
    by (simp add: forward_def Let_def q(1) a1(1) kk(1) a2(1) v(1) a3(1) s4_def [symmetric]
          z(1) a5(1) s6_def [symmetric] nx r o(1) a7(1) bo(1) i)
  then show ?thesis using a7(2) by blast
qed

lemma forward_frame:
  assumes "forward m x s = (r, m', s')"
  shows "m' = m \<and> (\<forall>a. a < next_addr s \<longrightarrow> heap s' a = heap s a)"
  using assms
  by (auto simp add: forward_def alloc_def print_def iadd_def Let_def
        split: sum.splits prod.splits if_splits option.splits)

lemma example_values:
  "matmul \<lparr>shape = [2, 2], data = [1, 0, 1, 0]\<rparr> \<lparr>shape = [2, 2, Suc 0], data = [1, 0, 0, 1]\<rparr>
     = Inr \<lparr>shape = [2, 2, Suc 0], data = [1, 1, 0, 0]\<rparr>"
  by (simp add: matmul_def broadcast_shapes_def bcast_idx_def tabulate_def get_def Let_def
        upt_rec)

lemma example_queries:
  "matmul \<lparr>shape = [2, 2], data = [1, 0, 1, 0]\<rparr> \<lparr>shape = [2, 2, Suc 0], data = [0, 0, 0, 0]\<rparr>
     = Inr \<lparr>shape = [2, 2, Suc 0], data = [0, 0, 0, 0]\<rparr>"
  by (simp add: matmul_def broadcast_shapes_def bcast_idx_def tabulate_def get_def Let_def
        upt_rec)

lemma example_attention:
  "scaled_dot_product_attention \<lparr>shape = [2, 2, Suc 0], data = [0, 0, 0, 0]\<rparr>
     \<lparr>shape = [2, 2, Suc 0], data = [0, 0, 0, 0]\<rparr> \<lparr>shape = [2, 2, Suc 0], data = [1, 1, 0, 0]\<rparr>
     = Inr \<lparr>shape = [2, 2, Suc 0], data = [1, 1, 0, 0]\<rparr>"
  by (simp add: scaled_dot_product_attention_def attention_weights_def scaled_scores_def
        torch_transpose_def softmax_def mul_scalar_def
        matmul_def broadcast_shapes_def bcast_idx_def tabulate_def get_def Let_def
        swap_3 upt_rec)

lemma example_projection:
  "matmul \<lparr>shape = [2, 2], data = [1, 1, 0, 0]\<rparr> \<lparr>shape = [2, 2], data = [1, 0, 0, 1]\<rparr>
     = Inr \<lparr>shape = [2, 2], data = [1, 1, 0, 0]\<rparr>"
  by (simp add: matmul_def broadcast_shapes_def bcast_idx_def tabulate_def get_def Let_def
        upt_rec)

text \<open>
  The module and the input of \<open>example_state\<close> are what the program builds when the
  top-level \<open>d_keys\<close> and \<open>d_values\<close> are 1 and the generator is \<open>example_rng\<close>.
\<close>

lemma example_module_constructed:
  "\<exists>s1. MultiHeadedAttention (Some 1) (Some 1) 2 2 True 0
            \<lparr>heap = (\<lambda>a. []), next_addr = 0, stdout = [], rng = example_rng, memory = 2 ^ 30\<rparr>
          = (Inr example_module, s1) \<and>
        alloc \<lparr>shape = [2, 2], data = [1, 0, 1, 0]\<rparr> s1
          = (example_input, example_state\<lparr>rng := rng s1, memory := memory s1\<rparr>)"
  apply (simp add: MultiHeadedAttention_def zeros_def alloc_def xavier_normal_inplace_def
        uniform_inplace_def fill_random_def Let_def example_rng_def example_module_def
        example_input_def example_state_def upt_rec)
  apply (auto simp add: fun_eq_iff)
  done

section \<open>The module\<close>

text \<open>
  C1. The claim is that for every input of shape (L, d_model) the forward operation
  returns a tensor of shape (L, d_model). In the state of the notebook, where the
  top-level \<open>d_keys\<close> and \<open>d_values\<close> are 64, the constructor called with
  \<open>d_model = 4\<close> and \<open>num_heads = 2\<close> builds weights of shape (2, 4, 64), and the forward
  call of that module on an input of shape (3, 4) raises in \<open>Z.reshape\<close>: the attention
  output has 2 * 3 * 64 elements and the requested shape 3 * 4.
\<close>

theorem forward_raises_at_small_model:
  "\<exists>m s1. MultiHeadedAttention (Some 64) (Some 64) 4 2 True 0 initial_state = (Inr m, s1) \<and>
     tshape (W_Q m) = [2, 4, 64] \<and> tshape (W_K m) = [2, 4, 64] \<and>
     tshape (W_V m) = [2, 4, 64] \<and>
     (case alloc \<lparr>shape = [3, 4], data = replicate 12 1\<rparr> s1 of
        (x, s2) \<Rightarrow> tshape x = [3, 4] \<and> fst (forward m x s2) = Inl RuntimeError)"
proof -
  obtain m s1 where c: "MultiHeadedAttention (Some 64) (Some 64) 4 2 True 0 initial_state = (Inr m, s1)"
    and f: "d_model m = 4" "tshape (W_Q m) = [2, 4, 64]" "tshape (W_K m) = [2, 4, 64]"
      "tshape (W_V m) = [2, 4, 64]"
    using construct_succeeds [of 2 4 64 64 0 initial_state]
    by (auto simp add: initial_state_def)
  obtain x s2 where a: "alloc \<lparr>shape = [3, 4], data = replicate 12 1\<rparr> s1 = (x, s2)"
    and x: "tshape x = [3, 4]"
    by (simp add: alloc_def)
  have "fst (forward m x s2) = Inl RuntimeError"
    using forward_reshape_fails [of m 2 4 64 64 x 3 s2] f x by simp
  then show ?thesis using c f a x by auto
qed




text \<open>
  C5. The claim is that the forward operation merges the per-head outputs by concatenating
  the heads along the feature axis: row i of the merged tensor is head 0 at position i
  followed by head 1 at position i. For \<open>example_module\<close> and \<open>example_input\<close>, whose rows
  are (1, 0) and (1, 0), the attention output is (1), (1) for head 0 and (0), (0) for
  head 1, so a concatenation of heads has the rows (1, 0) and (1, 0). The reshape of the
  code yields the rows (1, 1) and (0, 0) instead, and since the output projection is the
  identity and the bias zero, that is what the forward operation returns.
\<close>

theorem reshape_merge_mixes_positions:
  "deref example_state example_input = \<lparr>shape = [2, 2], data = [1, 0, 1, 0]\<rparr> \<and>
   matmul (deref example_state example_input) (deref example_state (W_Q example_module))
     = Inr \<lparr>shape = [2, 2, 1], data = [0, 0, 0, 0]\<rparr> \<and>
   matmul (deref example_state example_input) (deref example_state (W_K example_module))
     = Inr \<lparr>shape = [2, 2, 1], data = [0, 0, 0, 0]\<rparr> \<and>
   matmul (deref example_state example_input) (deref example_state (W_V example_module))
     = Inr \<lparr>shape = [2, 2, 1], data = [1, 1, 0, 0]\<rparr> \<and>
   scaled_dot_product_attention \<lparr>shape = [2, 2, 1], data = [0, 0, 0, 0]\<rparr>
       \<lparr>shape = [2, 2, 1], data = [0, 0, 0, 0]\<rparr> \<lparr>shape = [2, 2, 1], data = [1, 1, 0, 0]\<rparr>
     = Inr \<lparr>shape = [2, 2, 1], data = [1, 1, 0, 0]\<rparr> \<and>
   (\<exists>out s'. forward example_module example_input example_state
                = (Inr out, example_module, s') \<and>
              deref s' out = \<lparr>shape = [2, 2], data = [1, 1, 0, 0]\<rparr>)"
proof -
  have fw: "\<exists>out s'. forward example_module example_input example_state
                = (Inr out, example_module, s') \<and>
              deref s' out = \<lparr>shape = [2, 2], data = [1, 1, 0, 0]\<rparr>"
    by (simp add: forward_def alloc_def deref_def print_def iadd_def reshape_def
          example_module_def example_input_def example_state_def
          example_queries example_values example_attention example_projection
          broadcast_shapes_def bcast_idx_def tabulate_def get_def Let_def upt_rec)
  show ?thesis
    using fw example_queries example_values example_attention
    by (simp add: deref_def example_module_def example_input_def example_state_def)
qed

text \<open>
  C6. Construction with \<open>bias=False\<close> raises for all arguments. When the arguments are
  otherwise accepted (positive sizes, divisibility, a dropout probability in [0, 1],
  top-level \<open>d_keys\<close> and \<open>d_values\<close> that are positive integers, memory for the four
  weight tensors), the error is that of \<open>nn.init.uniform_\<close> applied to \<open>b_O\<close>, which is
  \<open>None\<close>.
\<close>

theorem construction_without_bias_fails:
  "(\<exists>e. fst (MultiHeadedAttention gk gv dm nh False p s) = Inl e) \<and>
   (0 < dm \<and> 0 < nh \<and> dm mod nh = 0 \<and> 0 \<le> p \<and> p \<le> 1 \<and>
    gk = Some k \<and> gv = Some v \<and> 0 < k \<and> k < 2 ^ 63 \<and> 0 < v \<and>
    2 * (nat nh * nat dm * nat k) + 2 * (nat nh * nat dm * nat v) \<le> memory s \<and>
    memory s < 2 ^ 61
      \<longrightarrow> fst (MultiHeadedAttention gk gv dm nh False p s) = Inl AttributeError)"
proof (intro conjI impI)
  show "\<exists>e. fst (MultiHeadedAttention gk gv dm nh False p s) = Inl e"
    by (auto simp add: MultiHeadedAttention_def uniform_inplace_def
          split: prod.splits sum.splits option.splits)
next
  assume a: "0 < dm \<and> 0 < nh \<and> dm mod nh = 0 \<and> 0 \<le> p \<and> p \<le> 1 \<and>
    gk = Some k \<and> gv = Some v \<and> 0 < k \<and> k < 2 ^ 63 \<and> 0 < v \<and>
    2 * (nat nh * nat dm * nat k) + 2 * (nat nh * nat dm * nat v) \<le> memory s \<and>
    memory s < 2 ^ 61"
  then have "fst (MultiHeadedAttention (Some k) (Some v) dm nh False p s) = Inl AttributeError"
    by (intro construct_without_bias) simp_all
  then show "fst (MultiHeadedAttention gk gv dm nh False p s) = Inl AttributeError"
    using a by simp
qed

theorem construction_without_bias_fails_witness:
  "(0::int) < 4 \<and> (0::int) < 2 \<and> (4::int) mod 2 = 0 \<and> (0::real) \<le> 0 \<and> (0::real) \<le> 1 \<and>
   (0::int) < 64 \<and> (64::int) < 2 ^ 63 \<and>
   2 * (nat 2 * nat 4 * nat 64) + 2 * (nat 2 * nat 4 * nat 64) \<le> memory initial_state \<and>
   memory initial_state < 2 ^ 61 \<and>
   fst (MultiHeadedAttention (Some 64) (Some 64) 4 2 False 0 initial_state) = Inl AttributeError"
  using construction_without_bias_fails [of "Some 64" "Some 64" 4 2 0 initial_state 64 64]
  by (simp add: initial_state_def)

text \<open>
  C7. The claim relates the output of a module constructed with \<open>bias=False\<close> to that of
  the biased module. No such module exists: with the default sizes and \<open>bias=False\<close> the
  constructor raises in \<open>nn.init.uniform_(self.b_O)\<close>.
\<close>

theorem unbiased_module_cannot_be_built:
  "fst (MultiHeadedAttention (Some 64) (Some 64) 512 8 False 0 initial_state)
     = Inl AttributeError"
  using construct_without_bias [of 8 512 64 64 0 initial_state]
  by (simp add: initial_state_def)

text \<open>
  C10. A forward call hands back the module object as it was, and when the storage cells
  of the module's weight tensors were allocated before the call, each of the five tensors
  has the same shape and elements after the call as before it, whatever the input and
  whether the call returns or raises.
\<close>

theorem forward_leaves_module_unchanged:
  assumes "forward m x s = (r, m', s')"
    and "addr (W_Q m) < next_addr s" and "addr (W_K m) < next_addr s"
    and "addr (W_V m) < next_addr s" and "addr (W_O m) < next_addr s"
    and "case b_O m of None \<Rightarrow> True | Some b \<Rightarrow> addr b < next_addr s"
  shows "m' = m \<and> deref s' (W_Q m') = deref s (W_Q m) \<and> deref s' (W_K m') = deref s (W_K m) \<and>
         deref s' (W_V m') = deref s (W_V m) \<and> deref s' (W_O m') = deref s (W_O m) \<and>
         map_option (deref s') (b_O m') = map_option (deref s) (b_O m)"
proof -
  have m: "m' = m" and fr: "\<And>a. a < next_addr s \<Longrightarrow> heap s' a = heap s a"
    using forward_frame [OF assms(1)] by simp_all
  have "map_option (deref s') (b_O m) = map_option (deref s) (b_O m)"
    using assms(6) fr by (cases "b_O m") (simp_all add: deref_def)
  then show ?thesis
    using m fr assms(2-5) by (simp add: deref_def)
qed

theorem forward_leaves_module_unchanged_witness:
  "\<exists>m s1. MultiHeadedAttention (Some 64) (Some 64) 4 2 True 0 initial_state = (Inr m, s1) \<and>
     (case alloc \<lparr>shape = [3, 4], data = replicate 12 1\<rparr> s1 of
        (x, s2) \<Rightarrow>
          addr (W_Q m) < next_addr s2 \<and> addr (W_K m) < next_addr s2 \<and>
          addr (W_V m) < next_addr s2 \<and> addr (W_O m) < next_addr s2 \<and>
          (case b_O m of None \<Rightarrow> True | Some b \<Rightarrow> addr b < next_addr s2) \<and>
          (case forward m x s2 of
             (r, m', s') \<Rightarrow>
               m' = m \<and> deref s' (W_Q m') = deref s2 (W_Q m) \<and>
               deref s' (W_K m') = deref s2 (W_K m) \<and> deref s' (W_V m') = deref s2 (W_V m) \<and>
               deref s' (W_O m') = deref s2 (W_O m) \<and>
               map_option (deref s') (b_O m') = map_option (deref s2) (b_O m)))"
proof -
  obtain m s1 b where c: "MultiHeadedAttention (Some 64) (Some 64) 4 2 True 0 initial_state = (Inr m, s1)"
    and ad: "next_addr s1 = 5" "addr (W_Q m) = 0" "addr (W_K m) = 1" "addr (W_V m) = 2"
      "addr (W_O m) = 3" "b_O m = Some b" "addr b = 4"
    using construct_succeeds [of 2 4 64 64 0 initial_state]
    by (auto simp add: initial_state_def)
  obtain x s2 where a: "alloc \<lparr>shape = [3, 4], data = replicate 12 1\<rparr> s1 = (x, s2)"
    and n: "next_addr s2 = 6"
    using ad(1) by (simp add: alloc_def)
  obtain r m' s' where f: "forward m x s2 = (r, m', s')"
    by (cases "forward m x s2") auto
  have h: "addr (W_Q m) < next_addr s2" "addr (W_K m) < next_addr s2"
      "addr (W_V m) < next_addr s2" "addr (W_O m) < next_addr s2"
      "case b_O m of None \<Rightarrow> True | Some b \<Rightarrow> addr b < next_addr s2"
    using ad n by simp_all
  show ?thesis
    using c a h f forward_leaves_module_unchanged [OF f h] by auto
qed

end
